theory Spec2Isabelle
  imports Main "HOL-Library.Word"
begin

section \<open>JavaScript values seen by the controllers\<close>

text \<open>
  A JavaScript string is a sequence of UTF-16 code units, and \<open>.length\<close> counts
  code units. String literals of the program are ASCII and are kept as \<open>string\<close>;
  \<open>utf16\<close> turns such a literal into the code units it denotes.
\<close>

type_synonym js_string = "16 word list"

definition utf16 :: "string \<Rightarrow> js_string" where
  "utf16 cs = map (\<lambda>c. of_char c) cs"

text \<open>
  The fields of a parsed JSON body: absent (\<open>undefined\<close>), \<open>null\<close>, a boolean, a
  number, a string or an array. Numbers are integers here (a non-integer number is
  truthy and has no \<open>length\<close>, like a non-zero integer); object-valued fields are
  outside the model.
\<close>

datatype jsval =
    JUndefined
  | JNull
  | JBool bool
  | JNum int
  | JStr js_string
  | JArr "jsval list"

text \<open>\<open>!x\<close> is \<open>\<not> truthy x\<close>: undefined, null, false, 0 and the empty string are falsy.\<close>

fun truthy :: "jsval \<Rightarrow> bool" where
  "truthy JUndefined = False"
| "truthy JNull = False"
| "truthy (JBool b) = b"
| "truthy (JNum n) = (n \<noteq> 0)"
| "truthy (JStr s) = (s \<noteq> [])"
| "truthy (JArr xs) = True"

text \<open>
  \<open>a === b\<close>. Primitives are compared by value; two arrays that come from different
  places (two fields of a body, a body and a stored document) are different objects.
\<close>

fun strict_eq :: "jsval \<Rightarrow> jsval \<Rightarrow> bool" where
  "strict_eq (JArr xs) b = False"
| "strict_eq a (JArr ys) = False"
| "strict_eq a b = (a = b)"

section \<open>Errors\<close>

datatype errorTypes =
    VALIDATION_ERROR
  | EMAIL_ALREADY_TAKEN
  | UNPROCESSABLE_ENTITY
  | NOT_IMPLEMENTED

text \<open>
  What a handler can throw or pass to \<open>next\<close>: an error built by \<open>errorResponder\<close>
  (kind and optional message), the \<open>TypeError\<close> of a property read on undefined or
  null, or any other error object raised by a collaborator (storage driver, hasher),
  identified by its text.
\<close>

datatype js_error =
    Classified errorTypes "string option"
  | TypeError
  | Unclassified string

text \<open>
  Modelled from the spec: \<open>core/errors\<close> (\<open>errorResponder\<close>) is not among the sources;
  it is the utility that builds a tagged error from an error kind and a message.
\<close>

definition errorResponder :: "errorTypes \<Rightarrow> string option \<Rightarrow> js_error" where
  "errorResponder errorType message = Classified errorType message"

text \<open>
  \<open>x.length\<close>: a \<open>TypeError\<close> on undefined and null, the number of code units of a
  string, the number of elements of an array, and \<open>undefined\<close> (\<open>None\<close>) on a
  boolean or a number.
\<close>

fun get_length :: "jsval \<Rightarrow> js_error + int option" where
  "get_length JUndefined = Inl TypeError"
| "get_length JNull = Inl TypeError"
| "get_length (JBool b) = Inr None"
| "get_length (JNum n) = Inr None"
| "get_length (JStr s) = Inr (Some (int (length s)))"
| "get_length (JArr xs) = Inr (Some (int (length xs)))"

text \<open>\<open>x < k\<close> for a number or undefined \<open>x\<close>: undefined converts to NaN, and the comparison is false.\<close>

fun less_than :: "int option \<Rightarrow> int \<Rightarrow> bool" where
  "less_than None k = False"
| "less_than (Some n) k = (n < k)"

section \<open>Requests, responses and handler outcomes\<close>

record user =
  u_id :: js_string
  u_email :: jsval
  u_password :: jsval
  u_fullName :: jsval

record book =
  b_id :: js_string
  b_title :: jsval

record request =
  req_body :: "string \<rightharpoonup> jsval"
  req_params_id :: js_string
  req_query :: "string \<rightharpoonup> js_string"

text \<open>Reading a property of the body: an absent key reads as undefined.\<close>

definition body_field :: "request \<Rightarrow> string \<Rightarrow> jsval" where
  "body_field request k = (case req_body request k of None \<Rightarrow> JUndefined | Some v \<Rightarrow> v)"

datatype json_body =
    Message string
  | UserList "user list"
  | UserDoc user
  | BookList "book list"

text \<open>
  How a call of an async handler ends: it sent \<open>response.status(n).json(b)\<close>, it
  called \<open>next(e)\<close>, or its promise was rejected with \<open>e\<close> and \<open>next\<close> was not called.
\<close>

datatype outcome =
    Responded nat json_body
  | NextCalled js_error
  | Rejected js_error

text \<open>
  The body of a handler yields \<open>Inl e\<close> when it throws \<open>e\<close> and \<open>Inr out\<close> when it
  returns after \<open>out\<close>. Inside \<open>try { ... } catch (error) { return next(error); }\<close> a
  thrown error goes to \<open>next\<close>; outside it rejects the handler's promise.
\<close>

definition try_catch_next :: "(js_error + outcome) \<times> 's \<Rightarrow> outcome \<times> 's" where
  "try_catch_next r = (case r of (Inl error, s) \<Rightarrow> (NextCalled error, s) | (Inr out, s) \<Rightarrow> (out, s))"

definition no_try :: "(js_error + outcome) \<times> 's \<Rightarrow> outcome \<times> 's" where
  "no_try r = (case r of (Inl error, s) \<Rightarrow> (Rejected error, s) | (Inr out, s) \<Rightarrow> (out, s))"

section \<open>The collaborators of the users controller\<close>

text \<open>
  \<open>users-service\<close> and \<open>utils/password\<close> are not among the sources, so the controller
  takes them as parameters. An awaited service call maps the state of the store to
  either a rejection (\<open>Inl\<close>) or a value (\<open>Inr\<close>), and a new state. The controller only
  tests the truthiness of \<open>emailExists\<close> and of the success flags, hence \<open>bool\<close>; a
  lookup yields a document or nothing. The hasher does not touch the store.
\<close>

type_synonym ('a, 's) call = "'s \<Rightarrow> (js_error + 'a) \<times> 's"

record 's collaborators =
  usersService_getUsers :: "int \<Rightarrow> int \<Rightarrow> (user list, 's) call"
  usersService_getUser :: "js_string \<Rightarrow> (user option, 's) call"
  usersService_getUserByEmail :: "jsval \<Rightarrow> (user option, 's) call"
  usersService_emailExists :: "jsval \<Rightarrow> (bool, 's) call"
  usersService_createUser :: "jsval \<Rightarrow> jsval \<Rightarrow> jsval \<Rightarrow> (bool, 's) call"
  usersService_updateUser :: "js_string \<Rightarrow> jsval \<Rightarrow> jsval \<Rightarrow> (bool, 's) call"
  usersService_deleteUser :: "js_string \<Rightarrow> (bool, 's) call"
  hashPassword :: "jsval \<Rightarrow> js_error + jsval"
  passwordMatched :: "jsval \<Rightarrow> jsval \<Rightarrow> js_error + bool"

section \<open>users-controller.js\<close>

text \<open>
  \<open>parseInt(x, 10)\<close> for a query parameter that is a string or absent: leading white
  space is skipped, then an optional sign, then the longest run of decimal digits;
  no digit gives NaN (\<open>None\<close>), as does an absent parameter. The value is an unbounded
  integer here (JavaScript rounds beyond \<open>2^53\<close>).
\<close>

definition is_white_space :: "16 word \<Rightarrow> bool" where
  "is_white_space u =
    (u \<in> set [0x09, 0x0A, 0x0B, 0x0C, 0x0D, 0x20, 0xA0, 0x1680, 0x2028, 0x2029,
               0x202F, 0x205F, 0x3000, 0xFEFF]
     \<or> (0x2000 \<le> u \<and> u \<le> 0x200A))"

definition is_digit :: "16 word \<Rightarrow> bool" where
  "is_digit u = (0x30 \<le> u \<and> u \<le> 0x39)"

definition digits_value :: "js_string \<Rightarrow> int" where
  "digits_value ds = foldl (\<lambda>acc d. 10 * acc + (uint d - 48)) 0 ds"

definition parseInt10 :: "js_string option \<Rightarrow> int option" where
  "parseInt10 x =
    (case x of
       None \<Rightarrow> None
     | Some str \<Rightarrow>
         (let s = dropWhile is_white_space str;
              negative = (s \<noteq> [] \<and> hd s = 0x2D);
              rest = (if s \<noteq> [] \<and> (hd s = 0x2D \<or> hd s = 0x2B) then tl s else s);
              ds = takeWhile is_digit rest
          in if ds = [] then None
             else Some (if negative then - digits_value ds else digits_value ds)))"

text \<open>\<open>n || d\<close> for a number \<open>n\<close>: NaN and 0 are falsy.\<close>

definition or_default :: "int option \<Rightarrow> int \<Rightarrow> int" where
  "or_default n d = (case n of None \<Rightarrow> d | Some v \<Rightarrow> (if v = 0 then d else v))"

definition getUsers :: "'s collaborators \<Rightarrow> request \<Rightarrow> 's \<Rightarrow> outcome \<times> 's" where
  "getUsers c request s =
    (let offset = or_default (parseInt10 (req_query request ''offset'')) 0;
         limit = or_default (parseInt10 (req_query request ''limit'')) 10
     in try_catch_next
          (case usersService_getUsers c offset limit s of
             (Inl error, s1) \<Rightarrow> (Inl error, s1)
           | (Inr users, s1) \<Rightarrow> (Inr (Responded 200 (UserList users)), s1)))"

definition getUser :: "'s collaborators \<Rightarrow> request \<Rightarrow> 's \<Rightarrow> outcome \<times> 's" where
  "getUser c request s =
    try_catch_next
      (case usersService_getUser c (req_params_id request) s of
         (Inl error, s1) \<Rightarrow> (Inl error, s1)
       | (Inr None, s1) \<Rightarrow>
           (Inl (errorResponder UNPROCESSABLE_ENTITY (Some ''User not found'')), s1)
       | (Inr (Some user), s1) \<Rightarrow> (Inr (Responded 200 (UserDoc user)), s1))"

definition createUser_body :: "'s collaborators \<Rightarrow> request \<Rightarrow> (outcome, 's) call" where
  "createUser_body c request s =
    (let email = body_field request ''email'';
         password = body_field request ''password'';
         fullName = body_field request ''full_name'';
         confirmPassword = body_field request ''confirm_password''
     in
     if \<not> truthy email then
       (Inl (errorResponder VALIDATION_ERROR (Some ''Email is required'')), s)
     else if \<not> truthy fullName then
       (Inl (errorResponder VALIDATION_ERROR (Some ''Full name is required'')), s)
     else
      (case usersService_emailExists c email s of
         (Inl error, s1) \<Rightarrow> (Inl error, s1)
       | (Inr taken, s1) \<Rightarrow>
          (if taken then
             (Inl (errorResponder EMAIL_ALREADY_TAKEN (Some ''Email already exists'')), s1)
           else
            (case get_length password of
               Inl error \<Rightarrow> (Inl error, s1)
             | Inr len \<Rightarrow>
                (if less_than len 8 then
                   (Inl (errorResponder VALIDATION_ERROR
                          (Some ''Password must be at least 8 characters long'')), s1)
                 else if \<not> strict_eq password confirmPassword then
                   (Inl (errorResponder VALIDATION_ERROR
                          (Some ''Password and confirm password do not match'')), s1)
                 else
                  (case hashPassword c password of
                     Inl error \<Rightarrow> (Inl error, s1)
                   | Inr hashedPassword \<Rightarrow>
                      (case usersService_createUser c email hashedPassword fullName s1 of
                         (Inl error, s2) \<Rightarrow> (Inl error, s2)
                       | (Inr success, s2) \<Rightarrow>
                          (if \<not> success then
                             (Inl (errorResponder UNPROCESSABLE_ENTITY
                                    (Some ''Failed to create user'')), s2)
                           else
                             (Inr (Responded 201 (Message ''User created successfully'')),
                              s2)))))))))"

definition createUser :: "'s collaborators \<Rightarrow> request \<Rightarrow> 's \<Rightarrow> outcome \<times> 's" where
  "createUser c request s = try_catch_next (createUser_body c request s)"

definition updateUser_body :: "'s collaborators \<Rightarrow> request \<Rightarrow> (outcome, 's) call" where
  "updateUser_body c request s =
    (let email = body_field request ''email'';
         fullName = body_field request ''full_name''
     in
     (case usersService_getUser c (req_params_id request) s of
        (Inl error, s1) \<Rightarrow> (Inl error, s1)
      | (Inr None, s1) \<Rightarrow>
          (Inl (errorResponder UNPROCESSABLE_ENTITY (Some ''User not found'')), s1)
      | (Inr (Some user), s1) \<Rightarrow>
         (if \<not> truthy email then
            (Inl (errorResponder VALIDATION_ERROR (Some ''Email is required'')), s1)
          else if \<not> truthy fullName then
            (Inl (errorResponder VALIDATION_ERROR (Some ''Full name is required'')), s1)
          else
           (case (if \<not> strict_eq email (u_email user)
                  then usersService_emailExists c email s1
                  else (Inr False, s1)) of
              (Inl error, s2) \<Rightarrow> (Inl error, s2)
            | (Inr taken, s2) \<Rightarrow>
               (if taken then
                  (Inl (errorResponder EMAIL_ALREADY_TAKEN (Some ''Email already exists'')),
                   s2)
                else
                 (case usersService_updateUser c (req_params_id request) email fullName s2 of
                    (Inl error, s3) \<Rightarrow> (Inl error, s3)
                  | (Inr success, s3) \<Rightarrow>
                     (if \<not> success then
                        (Inl (errorResponder UNPROCESSABLE_ENTITY
                               (Some ''Failed to update user'')), s3)
                      else
                        (Inr (Responded 200 (Message ''User updated successfully'')),
                         s3))))))))"

definition updateUser :: "'s collaborators \<Rightarrow> request \<Rightarrow> 's \<Rightarrow> outcome \<times> 's" where
  "updateUser c request s = try_catch_next (updateUser_body c request s)"

text \<open>\<open>loginUser\<close> has no \<open>try\<close>: it calls \<open>next\<close> itself, and anything thrown rejects its promise.\<close>

definition loginUser_body :: "'s collaborators \<Rightarrow> request \<Rightarrow> (outcome, 's) call" where
  "loginUser_body c request s =
    (let email = body_field request ''email'';
         password = body_field request ''password''
     in
     if \<not> truthy email \<or> \<not> truthy password then
       (Inr (NextCalled (errorResponder VALIDATION_ERROR
                          (Some ''Email and password are required''))), s)
     else
      (case usersService_getUserByEmail c email s of
         (Inl error, s1) \<Rightarrow> (Inl error, s1)
       | (Inr None, s1) \<Rightarrow>
           (Inr (NextCalled (errorResponder UNPROCESSABLE_ENTITY
                              (Some ''Invalid email or password''))), s1)
       | (Inr (Some user), s1) \<Rightarrow>
          (case passwordMatched c password (u_password user) of
             Inl error \<Rightarrow> (Inl error, s1)
           | Inr passwordIsValid \<Rightarrow>
              (if \<not> passwordIsValid then
                 (Inr (NextCalled (errorResponder UNPROCESSABLE_ENTITY
                                    (Some ''Invalid email or password''))), s1)
               else
                 (Inr (Responded 200 (Message ''Login successful'')), s1)))))"

definition loginUser :: "'s collaborators \<Rightarrow> request \<Rightarrow> 's \<Rightarrow> outcome \<times> 's" where
  "loginUser c request s = no_try (loginUser_body c request s)"

definition changePassword :: "'s collaborators \<Rightarrow> request \<Rightarrow> 's \<Rightarrow> outcome \<times> 's" where
  "changePassword c request s = no_try (Inr (NextCalled (errorResponder NOT_IMPLEMENTED None)), s)"

definition deleteUser :: "'s collaborators \<Rightarrow> request \<Rightarrow> 's \<Rightarrow> outcome \<times> 's" where
  "deleteUser c request s =
    try_catch_next
      (case usersService_deleteUser c (req_params_id request) s of
         (Inl error, s1) \<Rightarrow> (Inl error, s1)
       | (Inr success, s1) \<Rightarrow>
          (if \<not> success then
             (Inl (errorResponder UNPROCESSABLE_ENTITY (Some ''Failed to delete user'')), s1)
           else (Inr (Responded 200 (Message ''User deleted successfully'')), s1)))"

section \<open>Books: repository, service and controller\<close>

text \<open>
  Modelled from the spec: the \<open>Books\<close> model of \<open>models\<close> is not among the sources. The
  collection is the list of the stored books in storage order, and
  \<open>Books.find({}).skip(offset).limit(limit)\<close> is the page of at most \<open>limit\<close> books
  after the first \<open>offset\<close> ones. The spec fixes the page for an offset from 0 and a
  limit from 1; for the other arguments the definition follows the MongoDB cursor: a
  negative skip is rejected, a limit of 0 is no limit, and a negative limit counts as
  its absolute value.
\<close>

definition Books_find_skip_limit :: "book list \<Rightarrow> int \<Rightarrow> int \<Rightarrow> js_error + book list" where
  "Books_find_skip_limit books offset limit =
    (if offset < 0 then Inl (Unclassified ''skip must be non-negative'')
     else Inr (let rest = drop (nat offset) books
               in if limit = 0 then rest else take (nat \<bar>limit\<bar>) rest))"

definition booksRepository_getBooks :: "book list \<Rightarrow> int \<Rightarrow> int \<Rightarrow> js_error + book list" where
  "booksRepository_getBooks books offset limit = Books_find_skip_limit books offset limit"

definition booksService_getBooks :: "book list \<Rightarrow> int \<Rightarrow> int \<Rightarrow> js_error + book list" where
  "booksService_getBooks books offset limit = booksRepository_getBooks books offset limit"

definition booksController_getBooks :: "book list \<Rightarrow> request \<Rightarrow> outcome" where
  "booksController_getBooks stored request =
    (let offset = or_default (parseInt10 (req_query request ''offset'')) 0;
         limit = or_default (parseInt10 (req_query request ''limit'')) 10
     in fst (try_catch_next
          (case booksService_getBooks stored offset limit of
             Inl error \<Rightarrow> (Inl error, ())
           | Inr books \<Rightarrow> (Inr (Responded 200 (BookList books)), ()))))"

section \<open>A store for the users\<close>

text \<open>
  Modelled from the spec: \<open>users-repository\<close>, \<open>users-service\<close> and the \<open>Users\<close> model
  are not among the sources. The store holds the user documents in insertion order;
  every repository operation is a pass-through to the storage, whose failures (a lost
  connection) propagate to the caller as errors; \<open>createUser\<close>, \<open>updateUser\<close> and
  \<open>deleteUser\<close> report a success flag; the service delegates each operation to the
  repository, and \<open>emailExists\<close> is true iff \<open>getUserByEmail\<close> returns a record.
\<close>

record store =
  users :: "user list"
  connected :: bool
  next_id :: nat

definition storage_failure :: js_error where
  "storage_failure = Unclassified ''storage unavailable''"

definition fresh_id :: "nat \<Rightarrow> js_string" where
  "fresh_id n = replicate (Suc n) 0x69"

definition usersRepository_getUsers :: "int \<Rightarrow> int \<Rightarrow> (user list, store) call" where
  "usersRepository_getUsers offset limit s =
    (if \<not> connected s then (Inl storage_failure, s)
     else if offset < 0 then (Inl (Unclassified ''skip must be non-negative''), s)
     else (Inr (let rest = drop (nat offset) (users s)
                in if limit = 0 then rest else take (nat \<bar>limit\<bar>) rest), s))"

definition usersRepository_getUser :: "js_string \<Rightarrow> (user option, store) call" where
  "usersRepository_getUser uid s =
    (if \<not> connected s then (Inl storage_failure, s)
     else (Inr (find (\<lambda>u. u_id u = uid) (users s)), s))"

definition usersRepository_getUserByEmail :: "jsval \<Rightarrow> (user option, store) call" where
  "usersRepository_getUserByEmail email s =
    (if \<not> connected s then (Inl storage_failure, s)
     else (Inr (find (\<lambda>u. u_email u = email) (users s)), s))"

definition usersRepository_createUser :: "jsval \<Rightarrow> jsval \<Rightarrow> jsval \<Rightarrow> (bool, store) call" where
  "usersRepository_createUser email password fullName s =
    (if \<not> connected s then (Inl storage_failure, s)
     else (Inr True,
           s\<lparr>users := users s @
                 [\<lparr>u_id = fresh_id (next_id s), u_email = email,
                   u_password = password, u_fullName = fullName\<rparr>],
             next_id := Suc (next_id s)\<rparr>))"

definition usersRepository_updateUser :: "js_string \<Rightarrow> jsval \<Rightarrow> jsval \<Rightarrow> (bool, store) call" where
  "usersRepository_updateUser uid email fullName s =
    (if \<not> connected s then (Inl storage_failure, s)
     else if list_ex (\<lambda>u. u_id u = uid) (users s) then
       (Inr True,
        s\<lparr>users := map (\<lambda>u. if u_id u = uid
                             then u\<lparr>u_email := email, u_fullName := fullName\<rparr>
                             else u) (users s)\<rparr>)
     else (Inr False, s))"

definition usersRepository_deleteUser :: "js_string \<Rightarrow> (bool, store) call" where
  "usersRepository_deleteUser uid s =
    (if \<not> connected s then (Inl storage_failure, s)
     else if list_ex (\<lambda>u. u_id u = uid) (users s) then
       (Inr True, s\<lparr>users := filter (\<lambda>u. u_id u \<noteq> uid) (users s)\<rparr>)
     else (Inr False, s))"

definition usersService_emailExists_store :: "jsval \<Rightarrow> (bool, store) call" where
  "usersService_emailExists_store email s =
    (case usersRepository_getUserByEmail email s of
       (Inl error, s1) \<Rightarrow> (Inl error, s1)
     | (Inr user, s1) \<Rightarrow> (Inr (user \<noteq> None), s1))"

text \<open>
  The collaborators over this store, for a hasher given by its two functions.
\<close>

definition store_collaborators ::
  "(jsval \<Rightarrow> js_error + jsval) \<Rightarrow> (jsval \<Rightarrow> jsval \<Rightarrow> js_error + bool) \<Rightarrow> store collaborators" where
  "store_collaborators hash matched =
    \<lparr>usersService_getUsers = usersRepository_getUsers,
     usersService_getUser = usersRepository_getUser,
     usersService_getUserByEmail = usersRepository_getUserByEmail,
     usersService_emailExists = usersService_emailExists_store,
     usersService_createUser = usersRepository_createUser,
     usersService_updateUser = usersRepository_updateUser,
     usersService_deleteUser = usersRepository_deleteUser,
     hashPassword = hash,
     passwordMatched = matched\<rparr>"

section \<open>Example data\<close>

text \<open>
  Requests, a store and a hasher for the concrete instances below. The example hasher
  is not the real one: it is a pair of functions in which a hash verifies exactly
  against the string it was made from, and which rejects anything but a string.
\<close>

definition post :: "(string \<times> jsval) list \<Rightarrow> request" where
  "post kvs = \<lparr>req_body = map_of kvs, req_params_id = [], req_query = Map.empty\<rparr>"

definition put :: "js_string \<Rightarrow> (string \<times> jsval) list \<Rightarrow> request" where
  "put uid kvs = \<lparr>req_body = map_of kvs, req_params_id = uid, req_query = Map.empty\<rparr>"

definition get_query :: "(string \<times> js_string) list \<Rightarrow> request" where
  "get_query params = \<lparr>req_body = Map.empty, req_params_id = [], req_query = map_of params\<rparr>"

definition example_hash :: "jsval \<Rightarrow> js_error + jsval" where
  "example_hash v =
    (case v of JStr p \<Rightarrow> Inr (JStr (0x24 # p))
     | _ \<Rightarrow> Inl (Unclassified ''data must be a string''))"

definition example_matched :: "jsval \<Rightarrow> jsval \<Rightarrow> js_error + bool" where
  "example_matched v h =
    (case v of JStr p \<Rightarrow> Inr (h = JStr (0x24 # p))
     | _ \<Rightarrow> Inl (Unclassified ''data must be a string''))"

definition example_collaborators :: "store collaborators" where
  "example_collaborators = store_collaborators example_hash example_matched"

definition ann :: user where
  "ann = \<lparr>u_id = fresh_id 0, u_email = JStr (utf16 ''ann@example.org''),
          u_password = JStr (0x24 # utf16 ''correct horse''), u_fullName = JStr (utf16 ''Ann'')\<rparr>"

definition bob :: user where
  "bob = \<lparr>u_id = fresh_id 1, u_email = JStr (utf16 ''bob@example.org''),
          u_password = JStr (0x24 # utf16 ''battery staple''), u_fullName = JStr (utf16 ''Bob'')\<rparr>"

definition two_users :: store where
  "two_users = \<lparr>users = [ann, bob], connected = True, next_id = 2\<rparr>"

definition offline :: store where
  "offline = \<lparr>users = [ann, bob], connected = False, next_id = 2\<rparr>"

definition three_books :: "book list" where
  "three_books =
    [\<lparr>b_id = fresh_id 0, b_title = JStr (utf16 ''Emma'')\<rparr>,
     \<lparr>b_id = fresh_id 1, b_title = JStr (utf16 ''Ulysses'')\<rparr>,
     \<lparr>b_id = fresh_id 2, b_title = JStr (utf16 ''Walden'')\<rparr>]"

section \<open>Registration: the order of the checks\<close>

lemmas example_defs =
  example_collaborators_def store_collaborators_def usersService_emailExists_store_def
  usersRepository_getUserByEmail_def usersRepository_getUser_def
  usersRepository_createUser_def usersRepository_updateUser_def
  example_hash_def example_matched_def two_users_def ann_def bob_def
  post_def put_def body_field_def utf16_def fresh_id_def storage_failure_def



section \<open>Login: one error for both causes\<close>

text \<open>
  C2. With email and password present, a login whose email matches no stored user and a
  login whose email matches a user whose password does not verify end with the same
  error: kind \<open>UNPROCESSABLE_ENTITY\<close>, message "Invalid email or password".
\<close>

theorem loginUser_failures_indistinguishable:
  assumes "truthy (body_field r1 ''email'')" and "truthy (body_field r1 ''password'')"
    and "truthy (body_field r2 ''email'')" and "truthy (body_field r2 ''password'')"
    and unknown: "usersService_getUserByEmail c1 (body_field r1 ''email'') s1 = (Inr None, t1)"
    and known: "usersService_getUserByEmail c2 (body_field r2 ''email'') s2 = (Inr (Some user), t2)"
    and wrong: "passwordMatched c2 (body_field r2 ''password'') (u_password user) = Inr False"
  shows "fst (loginUser c1 r1 s1) =
           NextCalled (errorResponder UNPROCESSABLE_ENTITY (Some ''Invalid email or password''))
       \<and> fst (loginUser c2 r2 s2) = fst (loginUser c1 r1 s1)"
  using assms by (simp add: loginUser_def loginUser_body_def no_try_def)

theorem loginUser_failures_indistinguishable_witness:
  "fst (loginUser example_collaborators
          (post [(''email'', JStr (utf16 ''eve@example.org'')),
                 (''password'', JStr (utf16 ''correct horse''))]) two_users) =
     NextCalled (errorResponder UNPROCESSABLE_ENTITY (Some ''Invalid email or password''))
   \<and> fst (loginUser example_collaborators
          (post [(''email'', JStr (utf16 ''ann@example.org'')),
                 (''password'', JStr (utf16 ''wrong horse''))]) two_users) =
     fst (loginUser example_collaborators
          (post [(''email'', JStr (utf16 ''eve@example.org'')),
                 (''password'', JStr (utf16 ''correct horse''))]) two_users)"
proof -
  let ?r1 = "post [(''email'', JStr (utf16 ''eve@example.org'')),
                   (''password'', JStr (utf16 ''correct horse''))]"
  let ?r2 = "post [(''email'', JStr (utf16 ''ann@example.org'')),
                   (''password'', JStr (utf16 ''wrong horse''))]"
  have p1: "truthy (body_field ?r1 ''email'')" "truthy (body_field ?r1 ''password'')"
    and p2: "truthy (body_field ?r2 ''email'')" "truthy (body_field ?r2 ''password'')"
    by (simp_all add: example_defs)
  have unknown: "usersService_getUserByEmail example_collaborators (body_field ?r1 ''email'')
      two_users = (Inr None, two_users)"
    by (simp add: example_defs)
  have known: "usersService_getUserByEmail example_collaborators (body_field ?r2 ''email'')
      two_users = (Inr (Some ann), two_users)"
    by (simp add: example_defs)
  have wrong: "passwordMatched example_collaborators (body_field ?r2 ''password'')
      (u_password ann) = Inr False"
    by (simp add: example_defs)
  show ?thesis
    by (rule loginUser_failures_indistinguishable [OF p1 p2 unknown known wrong])
qed

section \<open>Registration followed by login\<close>

lemma find_snoc:
  "find P (xs @ [x]) =
     (case find P xs of None \<Rightarrow> (if P x then Some x else None) | Some y \<Rightarrow> Some y)"
  by (induction xs) auto

lemma find_none: "(\<forall>u \<in> set xs. \<not> P u) \<Longrightarrow> find P xs = None"
  by (induction xs) auto

text \<open>
  C3. On a store that accepts the write, a registration with a non-empty email string
  that no stored user has, a truthy full name and a password of at least 8 code units
  equal to its confirmation is answered with 201 and the message "User created
  successfully" (a message, no user document); a login with the same email and password
  on the resulting store is answered with 200. The hasher is any pair of functions in
  which the hash made of this password verifies against it.
\<close>

theorem register_then_login:
  assumes up: "connected s"
    and email: "body_field request ''email'' = JStr e" "e \<noteq> []"
    and name: "truthy (body_field request ''full_name'')"
    and password: "body_field request ''password'' = JStr p" "8 \<le> length p"
    and confirm: "body_field request ''confirm_password'' = JStr p"
    and unused: "\<forall>u \<in> set (users s). u_email u \<noteq> JStr e"
    and hashed: "hash (JStr p) = Inr h"
    and verifies: "matched (JStr p) h = Inr True"
    and login: "body_field login ''email'' = JStr e" "body_field login ''password'' = JStr p"
  shows "fst (createUser (store_collaborators hash matched) request s) =
           Responded 201 (Message ''User created successfully'')
       \<and> fst (loginUser (store_collaborators hash matched) login
                (snd (createUser (store_collaborators hash matched) request s))) =
           Responded 200 (Message ''Login successful'')"
proof -
  let ?c = "store_collaborators hash matched"
  let ?new = "\<lparr>u_id = fresh_id (next_id s), u_email = JStr e, u_password = h,
               u_fullName = body_field request ''full_name''\<rparr>"
  let ?s' = "s\<lparr>users := users s @ [?new], next_id := Suc (next_id s)\<rparr>"
  have absent: "find (\<lambda>u. u_email u = JStr e) (users s) = None"
    using unused by (simp add: find_none)
  have long: "\<not> int (length p) < 8" and nonempty: "p \<noteq> []"
    using password(2) by auto
  have created: "createUser ?c request s =
      (Responded 201 (Message ''User created successfully''), ?s')"
    using up email name password(1) confirm hashed absent long
    by (simp add: createUser_def createUser_body_def try_catch_next_def
        store_collaborators_def usersService_emailExists_store_def
        usersRepository_getUserByEmail_def usersRepository_createUser_def)
  have found: "find (\<lambda>u. u_email u = JStr e) (users ?s') = Some ?new"
    using absent by (simp add: find_snoc)
  have logged_in: "loginUser ?c login ?s' = (Responded 200 (Message ''Login successful''), ?s')"
    using up email(2) nonempty login verifies found
    by (simp add: loginUser_def loginUser_body_def no_try_def store_collaborators_def
        usersRepository_getUserByEmail_def)
  show ?thesis using created logged_in by simp
qed

text \<open>Eve registers next to Ann and Bob, and logs in.\<close>

theorem register_then_login_witness:
  "fst (createUser example_collaborators
          (post [(''email'', JStr (utf16 ''eve@example.org'')),
                 (''full_name'', JStr (utf16 ''Eve'')),
                 (''password'', JStr (utf16 ''opensesame'')),
                 (''confirm_password'', JStr (utf16 ''opensesame''))]) two_users) =
     Responded 201 (Message ''User created successfully'')
   \<and> fst (loginUser example_collaborators
          (post [(''email'', JStr (utf16 ''eve@example.org'')),
                 (''password'', JStr (utf16 ''opensesame''))])
          (snd (createUser example_collaborators
                 (post [(''email'', JStr (utf16 ''eve@example.org'')),
                        (''full_name'', JStr (utf16 ''Eve'')),
                        (''password'', JStr (utf16 ''opensesame'')),
                        (''confirm_password'', JStr (utf16 ''opensesame''))]) two_users))) =
     Responded 200 (Message ''Login successful'')"
proof -
  let ?r = "post [(''email'', JStr (utf16 ''eve@example.org'')),
                  (''full_name'', JStr (utf16 ''Eve'')),
                  (''password'', JStr (utf16 ''opensesame'')),
                  (''confirm_password'', JStr (utf16 ''opensesame''))]"
  let ?l = "post [(''email'', JStr (utf16 ''eve@example.org'')),
                  (''password'', JStr (utf16 ''opensesame''))]"
  have up: "connected two_users"
    by (simp add: two_users_def)
  have email: "body_field ?r ''email'' = JStr (utf16 ''eve@example.org'')"
      "utf16 ''eve@example.org'' \<noteq> []"
    and name: "truthy (body_field ?r ''full_name'')"
    and password: "body_field ?r ''password'' = JStr (utf16 ''opensesame'')"
      "8 \<le> length (utf16 ''opensesame'')"
    and confirm: "body_field ?r ''confirm_password'' = JStr (utf16 ''opensesame'')"
    and login: "body_field ?l ''email'' = JStr (utf16 ''eve@example.org'')"
      "body_field ?l ''password'' = JStr (utf16 ''opensesame'')"
    by (simp_all add: post_def body_field_def utf16_def)
  have unused: "\<forall>u \<in> set (users two_users). u_email u \<noteq> JStr (utf16 ''eve@example.org'')"
    by (simp add: two_users_def ann_def bob_def utf16_def)
  have hashed: "example_hash (JStr (utf16 ''opensesame'')) = Inr (JStr (0x24 # utf16 ''opensesame''))"
    by (simp add: example_hash_def)
  have verifies: "example_matched (JStr (utf16 ''opensesame''))
      (JStr (0x24 # utf16 ''opensesame'')) = Inr True"
    by (simp add: example_matched_def)
  show ?thesis
    unfolding example_collaborators_def
    by (rule register_then_login
        [where hash = example_hash and matched = example_matched,
         OF up email name password confirm unused hashed verifies login])
qed

section \<open>Registration: the password length\<close>

text \<open>
  C4. When the email and the full name are present and the email is not registered, a
  password string of fewer than 8 code units gives the \<open>VALIDATION_ERROR\<close> of the length
  check, whatever the confirmation is, hence also when it equals the password.
\<close>

theorem createUser_short_password:
  assumes "truthy (body_field request ''email'')"
    and "truthy (body_field request ''full_name'')"
    and "usersService_emailExists c (body_field request ''email'') s = (Inr False, s1)"
    and "body_field request ''password'' = JStr p"
    and "length p < 8"
  shows "createUser c request s =
    (NextCalled (errorResponder VALIDATION_ERROR
       (Some ''Password must be at least 8 characters long'')), s1)"
  using assms by (simp add: createUser_def createUser_body_def try_catch_next_def)

text \<open>The password "short", confirmed.\<close>

theorem createUser_short_password_witness:
  "createUser example_collaborators
     (post [(''email'', JStr (utf16 ''eve@example.org'')),
            (''full_name'', JStr (utf16 ''Eve'')),
            (''password'', JStr (utf16 ''short'')),
            (''confirm_password'', JStr (utf16 ''short''))]) two_users =
   (NextCalled (errorResponder VALIDATION_ERROR
      (Some ''Password must be at least 8 characters long'')), two_users)"
proof -
  let ?r = "post [(''email'', JStr (utf16 ''eve@example.org'')),
                  (''full_name'', JStr (utf16 ''Eve'')),
                  (''password'', JStr (utf16 ''short'')),
                  (''confirm_password'', JStr (utf16 ''short''))]"
  have present: "truthy (body_field ?r ''email'')" "truthy (body_field ?r ''full_name'')"
    by (simp_all add: post_def body_field_def utf16_def)
  have free: "usersService_emailExists example_collaborators (body_field ?r ''email'') two_users
      = (Inr False, two_users)"
    by (simp add: example_defs)
  have password: "body_field ?r ''password'' = JStr (utf16 ''short'')"
    by (simp add: post_def body_field_def)
  have short: "length (utf16 ''short'') < 8"
    by (simp add: utf16_def)
  show ?thesis
    by (rule createUser_short_password [OF present free password short])
qed

section \<open>Update: the uniqueness of the email\<close>

text \<open>
  C5. For an update of an existing user with email and full name present: when the new
  email differs from the user's current one and is registered, the result is
  \<open>EMAIL_ALREADY_TAKEN\<close>; when it equals the current one, the update is answered with
  200 as soon as the write reports success, whatever \<open>emailExists\<close> would have done
  (it is not called: replacing it by any other function changes nothing).
\<close>

theorem updateUser_email_uniqueness:
  assumes "body_field request ''email'' = email" and "truthy email"
    and "body_field request ''full_name'' = fullName" and "truthy fullName"
    and "usersService_getUser c (req_params_id request) s = (Inr (Some user), s1)"
  shows "(\<forall>s2. \<not> strict_eq email (u_email user)
              \<and> usersService_emailExists c email s1 = (Inr True, s2) \<longrightarrow>
            updateUser c request s =
              (NextCalled (errorResponder EMAIL_ALREADY_TAKEN (Some ''Email already exists'')),
               s2))
       \<and> (\<forall>s2 exists. strict_eq email (u_email user)
              \<and> usersService_updateUser c (req_params_id request) email fullName s1
                  = (Inr True, s2) \<longrightarrow>
            updateUser (c\<lparr>usersService_emailExists := exists\<rparr>) request s =
              (Responded 200 (Message ''User updated successfully''), s2))"
  using assms
  by (simp add: updateUser_def updateUser_body_def try_catch_next_def)

text \<open>
  Ann asks for Bob's email, and is refused; Ann keeps her email and changes her name
  while every uniqueness check would fail with a storage error, and is served.
\<close>

theorem updateUser_email_uniqueness_witness:
  "updateUser example_collaborators
     (put (fresh_id 0) [(''email'', JStr (utf16 ''bob@example.org'')),
                        (''full_name'', JStr (utf16 ''Ann''))]) two_users =
     (NextCalled (errorResponder EMAIL_ALREADY_TAKEN (Some ''Email already exists'')), two_users)
   \<and> fst (updateUser
        (example_collaborators
           \<lparr>usersService_emailExists := \<lambda>email s. (Inl storage_failure, s)\<rparr>)
        (put (fresh_id 0) [(''email'', JStr (utf16 ''ann@example.org'')),
                           (''full_name'', JStr (utf16 ''Ann Lee''))]) two_users) =
     Responded 200 (Message ''User updated successfully'')"
proof -
  let ?r1 = "put (fresh_id 0) [(''email'', JStr (utf16 ''bob@example.org'')),
                               (''full_name'', JStr (utf16 ''Ann''))]"
  let ?r2 = "put (fresh_id 0) [(''email'', JStr (utf16 ''ann@example.org'')),
                               (''full_name'', JStr (utf16 ''Ann Lee''))]"
  let ?s2 = "two_users\<lparr>users :=
      [ann\<lparr>u_email := JStr (utf16 ''ann@example.org''), u_fullName := JStr (utf16 ''Ann Lee'')\<rparr>,
       bob]\<rparr>"
  have e1: "body_field ?r1 ''email'' = JStr (utf16 ''bob@example.org'')"
    and n1: "body_field ?r1 ''full_name'' = JStr (utf16 ''Ann'')"
    and e2: "body_field ?r2 ''email'' = JStr (utf16 ''ann@example.org'')"
    and n2: "body_field ?r2 ''full_name'' = JStr (utf16 ''Ann Lee'')"
    by (simp_all add: put_def body_field_def)
  have t: "truthy (JStr (utf16 ''bob@example.org''))" "truthy (JStr (utf16 ''Ann''))"
      "truthy (JStr (utf16 ''ann@example.org''))" "truthy (JStr (utf16 ''Ann Lee''))"
    by (simp_all add: utf16_def)
  have u1: "usersService_getUser example_collaborators (req_params_id ?r1) two_users
      = (Inr (Some ann), two_users)"
    and u2: "usersService_getUser example_collaborators (req_params_id ?r2) two_users
      = (Inr (Some ann), two_users)"
    by (simp_all add: example_defs)
  have differs: "\<not> strict_eq (JStr (utf16 ''bob@example.org'')) (u_email ann)"
    and same: "strict_eq (JStr (utf16 ''ann@example.org'')) (u_email ann)"
    by (simp_all add: ann_def utf16_def)
  have taken: "usersService_emailExists example_collaborators (JStr (utf16 ''bob@example.org''))
      two_users = (Inr True, two_users)"
    by (simp add: example_defs)
  have written: "usersService_updateUser example_collaborators (req_params_id ?r2)
      (JStr (utf16 ''ann@example.org'')) (JStr (utf16 ''Ann Lee'')) two_users = (Inr True, ?s2)"
    by (simp add: example_defs)
  have a: "updateUser example_collaborators ?r1 two_users =
     (NextCalled (errorResponder EMAIL_ALREADY_TAKEN (Some ''Email already exists'')), two_users)"
    using updateUser_email_uniqueness [OF e1 t(1) n1 t(2) u1] differs taken by blast
  have b: "updateUser
        (example_collaborators
           \<lparr>usersService_emailExists := \<lambda>email s. (Inl storage_failure, s)\<rparr>) ?r2 two_users =
     (Responded 200 (Message ''User updated successfully''), ?s2)"
    using updateUser_email_uniqueness [OF e2 t(3) n2 t(4) u2] same written by blast
  show ?thesis using a b by simp
qed

section \<open>Change of password\<close>

text \<open>
  C6. Every call of \<open>changePassword\<close>, whatever the parameters, the body and the
  collaborators are, ends with \<open>next\<close> called on the \<open>NOT_IMPLEMENTED\<close> error, and leaves
  the store as it was.
\<close>

theorem changePassword_not_implemented:
  "changePassword c request s = (NextCalled (errorResponder NOT_IMPLEMENTED None), s)"
  by (simp add: changePassword_def no_try_def)

theorem changePassword_not_implemented_witness:
  "changePassword example_collaborators
     (put (fresh_id 0) [(''password'', JStr (utf16 ''opensesame''))]) two_users =
   (NextCalled (errorResponder NOT_IMPLEMENTED None), two_users)"
  by (rule changePassword_not_implemented)

section \<open>Errors of the collaborators\<close>

text \<open>
  In the five handlers whose body is inside \<open>try\<close>/\<open>catch\<close>, whatever is thrown goes to
  \<open>next\<close>: the handler's promise is never rejected.
\<close>

lemma getUsers_never_rejects: "fst (getUsers c request s) \<noteq> Rejected e"
  by (simp add: getUsers_def try_catch_next_def Let_def split: sum.splits prod.splits)

lemma getUser_never_rejects: "fst (getUser c request s) \<noteq> Rejected e"
  by (simp add: getUser_def try_catch_next_def split: sum.splits prod.splits option.splits)

lemma createUser_never_rejects: "fst (createUser c request s) \<noteq> Rejected e"
  by (simp add: createUser_def createUser_body_def try_catch_next_def Let_def
      split: sum.splits prod.splits)

lemma updateUser_never_rejects: "fst (updateUser c request s) \<noteq> Rejected e"
  by (simp add: updateUser_def updateUser_body_def try_catch_next_def Let_def
      split: sum.splits prod.splits option.splits)

lemma deleteUser_never_rejects: "fst (deleteUser c request s) \<noteq> Rejected e"
  by (simp add: deleteUser_def try_catch_next_def split: sum.splits prod.splits)

text \<open>A rejected service call reaches \<open>next\<close> unchanged, here for \<open>createUser\<close>.\<close>

lemma createUser_forwards_rejection:
  assumes "truthy (body_field request ''email'')"
    and "truthy (body_field request ''full_name'')"
    and "usersService_emailExists c (body_field request ''email'') s = (Inl e, s1)"
  shows "createUser c request s = (NextCalled e, s1)"
  using assms by (simp add: createUser_def createUser_body_def try_catch_next_def)

text \<open>
  \<open>loginUser\<close> has no \<open>try\<close>: a rejection of \<open>getUserByEmail\<close> or of \<open>passwordMatched\<close>
  rejects the handler's promise, and \<open>next\<close> is not called.
\<close>

lemma loginUser_lookup_rejection:
  assumes "truthy (body_field request ''email'')"
    and "truthy (body_field request ''password'')"
    and "usersService_getUserByEmail c (body_field request ''email'') s = (Inl e, s1)"
  shows "loginUser c request s = (Rejected e, s1)"
  using assms by (simp add: loginUser_def loginUser_body_def no_try_def)

lemma loginUser_matcher_rejection:
  assumes "truthy (body_field request ''email'')"
    and "truthy (body_field request ''password'')"
    and "usersService_getUserByEmail c (body_field request ''email'') s = (Inr (Some user), s1)"
    and "passwordMatched c (body_field request ''password'') (u_password user) = Inl e"
  shows "loginUser c request s = (Rejected e, s1)"
  using assms by (simp add: loginUser_def loginUser_body_def no_try_def)

text \<open>
  C7. Not every error thrown inside \<open>loginUser\<close> reaches \<open>next\<close>: Ann logs in with her
  password while the storage is unavailable; the lookup is rejected with the storage
  error, and the handler ends rejected, without a call of \<open>next\<close>. The same storage
  error during a registration does reach \<open>next\<close>, unchanged.
\<close>

theorem loginUser_storage_failure_not_forwarded:
  "loginUser example_collaborators
     (post [(''email'', JStr (utf16 ''ann@example.org'')),
            (''password'', JStr (utf16 ''correct horse''))]) offline =
     (Rejected storage_failure, offline)
   \<and> createUser example_collaborators
     (post [(''email'', JStr (utf16 ''ann@example.org'')),
            (''full_name'', JStr (utf16 ''Ann'')),
            (''password'', JStr (utf16 ''correct horse'')),
            (''confirm_password'', JStr (utf16 ''correct horse''))]) offline =
     (NextCalled storage_failure, offline)"
  by (simp add: loginUser_def loginUser_body_def no_try_def createUser_def createUser_body_def
      try_catch_next_def example_collaborators_def store_collaborators_def
      usersService_emailExists_store_def usersRepository_getUserByEmail_def
      offline_def post_def body_field_def utf16_def)

section \<open>Books: pagination\<close>

text \<open>
  C8. \<open>getBooks\<close> with offset 0 and limit 10 (also the controller's defaults, when the
  query has neither parameter) returns the first 10 books in storage order, or all of
  them when there are fewer; with an offset that is at least the size of the collection
  it returns the empty list, and the controller answers 200 with it, for every limit.
\<close>

theorem getBooks_pagination:
  "booksService_getBooks books 0 10 = Inr (take 10 books)
   \<and> length (take 10 books) \<le> 10
   \<and> (req_query request ''offset'' = None \<and> req_query request ''limit'' = None \<longrightarrow>
        booksController_getBooks books request = Responded 200 (BookList (take 10 books)))
   \<and> (int (length books) \<le> offset \<longrightarrow> booksService_getBooks books offset limit = Inr [])
   \<and> (int (length books) \<le> offset \<and> parseInt10 (req_query request ''offset'') = Some offset \<longrightarrow>
        booksController_getBooks books request = Responded 200 (BookList []))"
  by (auto simp add: booksService_getBooks_def booksRepository_getBooks_def
      Books_find_skip_limit_def booksController_getBooks_def try_catch_next_def
      parseInt10_def or_default_def Let_def)

text \<open>Three books: the default page holds all three, the page from offset 3 is empty.\<close>

theorem getBooks_pagination_witness:
  "booksController_getBooks three_books (get_query []) = Responded 200 (BookList three_books)
   \<and> booksService_getBooks three_books 3 10 = Inr []
   \<and> booksController_getBooks three_books (get_query [(''offset'', utf16 ''3'')]) =
       Responded 200 (BookList [])"
proof -
  have none: "req_query (get_query []) ''offset'' = None \<and> req_query (get_query []) ''limit'' = None"
    by (simp add: get_query_def)
  have beyond: "int (length three_books) \<le> 3"
    by (simp add: three_books_def)
  have parsed: "parseInt10 (req_query (get_query [(''offset'', utf16 ''3'')]) ''offset'') = Some 3"
    by (simp add: get_query_def parseInt10_def utf16_def is_white_space_def is_digit_def
        digits_value_def)
  have all: "take 10 three_books = three_books"
    by (simp add: three_books_def)
  show ?thesis
    using getBooks_pagination [of three_books "get_query []" 3 10] none beyond all
      getBooks_pagination [of three_books "get_query [(''offset'', utf16 ''3'')]" 3 10] parsed
    by simp
qed

section \<open>Update: the password\<close>

lemma map_update_keeps_password:
  "map (\<lambda>u. (u_id u, u_password u))
     (map (\<lambda>u. if u_id u = uid then u\<lparr>u_email := email, u_fullName := fullName\<rparr> else u) xs)
   = map (\<lambda>u. (u_id u, u_password u)) xs"
  by (induction xs) auto

lemma updateUser_store_users:
  "users (snd (updateUser (store_collaborators hash matched) request s)) = users s
   \<or> users (snd (updateUser (store_collaborators hash matched) request s)) =
       map (\<lambda>u. if u_id u = req_params_id request
                 then u\<lparr>u_email := body_field request ''email'',
                        u_fullName := body_field request ''full_name''\<rparr>
                 else u) (users s)"
  by (simp add: updateUser_def updateUser_body_def try_catch_next_def Let_def
        store_collaborators_def usersService_emailExists_store_def
        usersRepository_getUserByEmail_def usersRepository_getUser_def
        usersRepository_updateUser_def split: option.splits)

text \<open>
  C9. After any call of \<open>updateUser\<close>, successful or not, the stored users are either
  what they were or differ only in the email and the full name of the users with the
  requested id, so every user keeps its id and its password hash. The handler does not
  read the password either: if the lookup returned the same document with any other
  password, the handler would do the same. (The write takes the id, the email and the
  full name only.)
\<close>

theorem updateUser_password_untouched:
  "(users (snd (updateUser (store_collaborators hash matched) request s)) = users s
    \<or> users (snd (updateUser (store_collaborators hash matched) request s)) =
        map (\<lambda>u. if u_id u = req_params_id request
                  then u\<lparr>u_email := body_field request ''email'',
                         u_fullName := body_field request ''full_name''\<rparr>
                  else u) (users s))
   \<and> map (\<lambda>u. (u_id u, u_password u))
         (users (snd (updateUser (store_collaborators hash matched) request s)))
       = map (\<lambda>u. (u_id u, u_password u)) (users s)
   \<and> updateUser
        (c\<lparr>usersService_getUser := \<lambda>uid st.
             (case usersService_getUser c uid st of
                (Inr (Some u), st') \<Rightarrow> (Inr (Some (u\<lparr>u_password := pw\<rparr>)), st')
              | r \<Rightarrow> r)\<rparr>) request s
       = updateUser c request s"
proof (intro conjI)
  show shape: "users (snd (updateUser (store_collaborators hash matched) request s)) = users s
    \<or> users (snd (updateUser (store_collaborators hash matched) request s)) =
        map (\<lambda>u. if u_id u = req_params_id request
                  then u\<lparr>u_email := body_field request ''email'',
                         u_fullName := body_field request ''full_name''\<rparr>
                  else u) (users s)"
    by (rule updateUser_store_users)
  then show "map (\<lambda>u. (u_id u, u_password u))
         (users (snd (updateUser (store_collaborators hash matched) request s)))
       = map (\<lambda>u. (u_id u, u_password u)) (users s)"
    by (auto simp add: map_update_keeps_password)
  show "updateUser
        (c\<lparr>usersService_getUser := \<lambda>uid st.
             (case usersService_getUser c uid st of
                (Inr (Some u), st') \<Rightarrow> (Inr (Some (u\<lparr>u_password := pw\<rparr>)), st')
              | r \<Rightarrow> r)\<rparr>) request s
       = updateUser c request s"
    by (simp add: updateUser_def updateUser_body_def Let_def
        split: prod.splits sum.splits option.splits)
qed

text \<open>Ann changes her email and her name: both password hashes are as before.\<close>

theorem updateUser_password_untouched_witness:
  "fst (updateUser example_collaborators
          (put (fresh_id 0) [(''email'', JStr (utf16 ''ann@example.com'')),
                             (''full_name'', JStr (utf16 ''Ann Lee''))]) two_users) =
     Responded 200 (Message ''User updated successfully'')
   \<and> map (\<lambda>u. (u_id u, u_password u))
       (users (snd (updateUser example_collaborators
          (put (fresh_id 0) [(''email'', JStr (utf16 ''ann@example.com'')),
                             (''full_name'', JStr (utf16 ''Ann Lee''))]) two_users))) =
     [(fresh_id 0, JStr (0x24 # utf16 ''correct horse'')),
      (fresh_id 1, JStr (0x24 # utf16 ''battery staple''))]"
proof -
  let ?r = "put (fresh_id 0) [(''email'', JStr (utf16 ''ann@example.com'')),
                              (''full_name'', JStr (utf16 ''Ann Lee''))]"
  have served: "fst (updateUser example_collaborators ?r two_users) =
      Responded 200 (Message ''User updated successfully'')"
    by (simp add: updateUser_def updateUser_body_def try_catch_next_def example_defs)
  have before: "map (\<lambda>u. (u_id u, u_password u)) (users two_users) =
     [(fresh_id 0, JStr (0x24 # utf16 ''correct horse'')),
      (fresh_id 1, JStr (0x24 # utf16 ''battery staple''))]"
    by (simp add: two_users_def ann_def bob_def)
  show ?thesis
    using updateUser_password_untouched [of example_hash example_matched ?r two_users]
      served before
    by (simp add: example_collaborators_def)
qed

section \<open>Registration without a password\<close>

text \<open>
  C10. When the email and the full name are present and the email is not registered:
  if the body has no \<open>password\<close>, reading \<open>password.length\<close> throws a \<open>TypeError\<close>, which
  goes to \<open>next\<close> as it is, and which is not an error built by \<open>errorResponder\<close>; if the
  password is a string, the read yields its length, and a length below 8 is reported as
  the \<open>VALIDATION_ERROR\<close> of the length check.
\<close>

theorem createUser_password_absent:
  assumes "truthy (body_field request ''email'')"
    and "truthy (body_field request ''full_name'')"
    and "usersService_emailExists c (body_field request ''email'') s = (Inr False, s1)"
  shows "(req_body request ''password'' = None \<longrightarrow>
            createUser c request s = (NextCalled TypeError, s1)
            \<and> (\<forall>kind message. errorResponder kind message \<noteq> TypeError))
       \<and> (\<forall>p. body_field request ''password'' = JStr p \<longrightarrow>
            get_length (body_field request ''password'') = Inr (Some (int (length p)))
            \<and> (length p < 8 \<longrightarrow>
                 createUser c request s =
                   (NextCalled (errorResponder VALIDATION_ERROR
                      (Some ''Password must be at least 8 characters long'')), s1)))"
  using assms
  by (auto simp add: createUser_def createUser_body_def try_catch_next_def body_field_def
      errorResponder_def)

text \<open>Eve registers without a password, then with the password "eve".\<close>

theorem createUser_password_absent_witness:
  "createUser example_collaborators
     (post [(''email'', JStr (utf16 ''eve@example.org'')),
            (''full_name'', JStr (utf16 ''Eve''))]) two_users =
     (NextCalled TypeError, two_users)
   \<and> createUser example_collaborators
     (post [(''email'', JStr (utf16 ''eve@example.org'')),
            (''full_name'', JStr (utf16 ''Eve'')),
            (''password'', JStr (utf16 ''eve''))]) two_users =
     (NextCalled (errorResponder VALIDATION_ERROR
        (Some ''Password must be at least 8 characters long'')), two_users)"
proof -
  let ?r1 = "post [(''email'', JStr (utf16 ''eve@example.org'')),
                   (''full_name'', JStr (utf16 ''Eve''))]"
  let ?r2 = "post [(''email'', JStr (utf16 ''eve@example.org'')),
                   (''full_name'', JStr (utf16 ''Eve'')),
                   (''password'', JStr (utf16 ''eve''))]"
  have p1: "truthy (body_field ?r1 ''email'')" "truthy (body_field ?r1 ''full_name'')"
    and p2: "truthy (body_field ?r2 ''email'')" "truthy (body_field ?r2 ''full_name'')"
    by (simp_all add: post_def body_field_def utf16_def)
  have f1: "usersService_emailExists example_collaborators (body_field ?r1 ''email'') two_users
      = (Inr False, two_users)"
    and f2: "usersService_emailExists example_collaborators (body_field ?r2 ''email'') two_users
      = (Inr False, two_users)"
    by (simp_all add: example_defs)
  have absent: "req_body ?r1 ''password'' = None"
    by (simp add: post_def)
  have given: "body_field ?r2 ''password'' = JStr (utf16 ''eve'')"
    and short: "length (utf16 ''eve'') < 8"
    by (simp_all add: post_def body_field_def utf16_def)
  have a: "createUser example_collaborators ?r1 two_users = (NextCalled TypeError, two_users)"
    using createUser_password_absent [OF p1 f1] absent by blast
  have b: "createUser example_collaborators ?r2 two_users =
     (NextCalled (errorResponder VALIDATION_ERROR
        (Some ''Password must be at least 8 characters long'')), two_users)"
    using createUser_password_absent [OF p2 f2] given short by blast
  show ?thesis using a b by simp
qed

end
